theory Spec2Isabelle
  imports Complex_Main "HOL-Library.Sublist"
begin

section \<open>JavaScript strings\<close>

text \<open>
  Strings are character lists.  \<open>a || b\<close> on strings yields \<open>a\<close> unless \<open>a\<close> is the
  empty string; \<open>s.includes(t)\<close> holds when \<open>t\<close> occurs in \<open>s\<close> as a contiguous run;
  \<open>s.toLowerCase()\<close> is modelled on the ASCII letters, which is all that the patterns
  searched for by the dashboard contain.
\<close>

definition js_or :: "string \<Rightarrow> string \<Rightarrow> string" where
  "js_or a b = (if a \<noteq> [] then a else b)"

fun str_includes :: "'a list \<Rightarrow> 'a list \<Rightarrow> bool" where
  "str_includes [] needle = (needle = [])"
| "str_includes (c # cs) needle = (prefix needle (c # cs) \<or> str_includes cs needle)"

definition lower_char :: "char \<Rightarrow> char" where
  "lower_char c =
     (case map_of (zip ''ABCDEFGHIJKLMNOPQRSTUVWXYZ'' ''abcdefghijklmnopqrstuvwxyz'') c of
        Some l \<Rightarrow> l
      | None \<Rightarrow> c)"

definition toLowerCase :: "string \<Rightarrow> string" where
  "toLowerCase s = map lower_char s"

definition newline :: char where
  "newline = CHR 0x0A"


section \<open>Data model of the dashboard\<close>

text \<open>
  A browser \<open>File\<close>: its name, byte size and declared MIME type.  \<open>file_text\<close> is what
  \<open>FileReader.readAsText\<close> delivers for it: \<open>Some content\<close> when the \<open>load\<close> event
  fires, \<open>None\<close> when the \<open>error\<close> event fires.
\<close>

record jsfile =
  file_name :: string
  file_size :: nat
  file_type :: string
  file_text :: "string option"

text \<open>The descriptor objects \<open>{id, file, name, size, type}\<close> kept in \<open>uploadedFiles\<close>.\<close>

record fileobj =
  fo_id :: rat
  fo_file :: jsfile
  fo_name :: string
  fo_size :: nat
  fo_type :: string

text \<open>The messages shown with \<open>alert\<close> by the dashboard, with their variable part.\<close>

datatype alert =
    AlertRejected nat
  | AlertCanAdd int
  | AlertMaxReached
  | AlertPdfError


section \<open>File intake: \<open>processFiles\<close> and \<open>removeFile\<close>\<close>

definition VALID_FILE_TYPES :: "string list" where
  "VALID_FILE_TYPES =
     [''application/pdf'', ''text/markdown'', ''text/x-markdown'',
      ''application/vnd.openxmlformats-officedocument.wordprocessingml.document'']"

definition MAX_FILE_SIZE :: nat where
  "MAX_FILE_SIZE = 10 * 1024 * 1024"

definition MAX_FILES_COUNT :: nat where
  "MAX_FILES_COUNT = 10"

text \<open>The predicate given to \<open>files.filter\<close>.\<close>

definition validFile :: "jsfile \<Rightarrow> bool" where
  "validFile file =
     (if file_type file \<notin> set VALID_FILE_TYPES then False
      else if file_size file > MAX_FILE_SIZE then False
      else True)"

text \<open>
  \<open>id: Date.now() + Math.random()\<close>.  \<open>Date.now()\<close> is a whole number of milliseconds
  \<open>now\<close>, \<open>Math.random()\<close> is a binary64 number \<open>k / 2^53\<close> with \<open>k < 2^53\<close>, and the
  sum is rounded to the nearest binary64 number, ties to even.  For
  \<open>2^40 \<le> now < 2^41\<close> (November 2004 to May 2039) binary64 numbers are \<open>2^-12\<close> apart,
  so the identifier is the exact sum \<open>(now * 2^53 + k) / 2^53\<close> rounded to a multiple of
  \<open>2^-12\<close>.  The definition is that rounding; for a clock outside this range it is not
  the binary64 sum, and nothing below relies on it there.
\<close>

definition round_half_even :: "nat \<Rightarrow> nat \<Rightarrow> nat" where
  "round_half_even num den =
     (let q = num div den; r = num mod den
      in if 2 * r > den \<or> (2 * r = den \<and> odd q) then q + 1 else q)"

definition date_now_plus_random :: "nat \<Rightarrow> nat \<Rightarrow> rat" where
  "date_now_plus_random now k = of_nat (round_half_even (now * 2 ^ 53 + k) (2 ^ 41)) / 2 ^ 12"

text \<open>
  \<open>validFiles.map(file => ({id: ..., file, name, size, type}))\<close>.  The clock and the
  random generator are the environment: \<open>draws i\<close> is the pair read for the \<open>i\<close>-th
  mapped file.
\<close>

definition mkFileObj :: "nat \<times> nat \<Rightarrow> jsfile \<Rightarrow> fileobj" where
  "mkFileObj d file =
     \<lparr>fo_id = date_now_plus_random (fst d) (snd d), fo_file = file,
      fo_name = file_name file, fo_size = file_size file, fo_type = file_type file\<rparr>"

definition newFiles :: "(nat \<Rightarrow> nat \<times> nat) \<Rightarrow> jsfile list \<Rightarrow> fileobj list" where
  "newFiles draws validFiles =
     map (\<lambda>(i, file). mkFileObj (draws i) file) (enumerate 0 validFiles)"

text \<open>
  \<open>processFiles\<close>, called by the picker handler and by the drop handler.  It reads
  \<open>uploadedFiles\<close> of the current render and ends with
  \<open>setUploadedFiles(prev => [...prev, ...newFiles])\<close>; every handler runs on the
  render of the current state, so both are the list passed in.  The result is the alerts
  shown, in order, and the next value of \<open>uploadedFiles\<close>.
  \<open>validFiles.splice(canAdd)\<close> with \<open>canAdd > 0\<close> keeps the first \<open>canAdd\<close> entries.
\<close>

definition processFiles ::
  "fileobj list \<Rightarrow> jsfile list \<Rightarrow> (nat \<Rightarrow> nat \<times> nat) \<Rightarrow> alert list \<times> fileobj list" where
  "processFiles uploadedFiles files draws =
     (let validFiles = filter validFile files;
          rejected = (if length validFiles \<noteq> length files
                      then [AlertRejected (length files - length validFiles)] else [])
      in if length validFiles = 0 then (rejected, uploadedFiles)
         else if length uploadedFiles + length validFiles > MAX_FILES_COUNT then
           (let canAdd = int MAX_FILES_COUNT - int (length uploadedFiles)
            in if canAdd > 0
               then (rejected @ [AlertCanAdd canAdd],
                     uploadedFiles @ newFiles draws (take (nat canAdd) validFiles))
               else (rejected @ [AlertMaxReached], uploadedFiles))
         else (rejected, uploadedFiles @ newFiles draws validFiles))"

definition removeFile :: "fileobj list \<Rightarrow> rat \<Rightarrow> fileobj list" where
  "removeFile prev fileId = filter (\<lambda>f. fo_id f \<noteq> fileId) prev"

text \<open>
  The intake operations of the user interface, and the collection reached from the
  initial \<open>useState([])\<close> by a sequence of them.
\<close>

datatype intake_op =
    Pick "jsfile list" "nat \<Rightarrow> nat \<times> nat"
  | Drop "jsfile list" "nat \<Rightarrow> nat \<times> nat"
  | Remove rat

fun intake_step :: "fileobj list \<Rightarrow> intake_op \<Rightarrow> fileobj list" where
  "intake_step uploadedFiles (Pick files draws) = snd (processFiles uploadedFiles files draws)"
| "intake_step uploadedFiles (Drop files draws) = snd (processFiles uploadedFiles files draws)"
| "intake_step uploadedFiles (Remove fileId) = removeFile uploadedFiles fileId"

definition run_intake :: "intake_op list \<Rightarrow> fileobj list" where
  "run_intake ops = foldl intake_step [] ops"

text \<open>
  The invariant of the accepted-file collection: every descriptor copies the type and the
  size of its file, the type is in the allow-list, the size is at most the cap, and the
  collection holds at most \<open>MAX_FILES_COUNT\<close> descriptors.
\<close>

definition accepted_ok :: "fileobj list \<Rightarrow> bool" where
  "accepted_ok fs =
     (list_all (\<lambda>f. fo_type f = file_type (fo_file f) \<and> fo_size f = file_size (fo_file f)
                  \<and> fo_type f \<in> set VALID_FILE_TYPES \<and> fo_size f \<le> MAX_FILE_SIZE) fs
      \<and> length fs \<le> MAX_FILES_COUNT)"


section \<open>Content extraction: \<open>readFileContent\<close>\<close>

definition TRUNCATION_MARKER :: string where
  "TRUNCATION_MARKER = [newline, newline] @ ''[Content truncated due to length]''"

definition pdf_placeholder :: "string \<Rightarrow> string" where
  "pdf_placeholder name =
     ''[PDF Document: '' @ name @ '']'' @ [newline, newline] @
     ''This is a PDF document. The content will be processed on the server side for better text extraction and analysis.''"

definition docx_placeholder :: "string \<Rightarrow> string" where
  "docx_placeholder name =
     ''[DOCX Document: '' @ name @ '']'' @ [newline, newline] @
     ''This is a Word document. The content will be processed on the server side for better text extraction and analysis.''"

definition unsupported_placeholder :: "string \<Rightarrow> string" where
  "unsupported_placeholder ty = ''[Unsupported file type: '' @ ty @ '']''"

text \<open>
  The tests of the \<open>if\<close> chain of \<open>readFileContent\<close>, in the order of the source, name
  the branch taken for a declared type.
\<close>

datatype branch = PdfBranch | TextBranch | DocxBranch | UnsupportedBranch

definition readFileContent_branch :: "string \<Rightarrow> branch" where
  "readFileContent_branch ty =
     (if ty = ''application/pdf'' then PdfBranch
      else if str_includes ty ''markdown'' \<or> str_includes ty ''text'' then TextBranch
      else if str_includes ty ''wordprocessingml'' then DocxBranch
      else UnsupportedBranch)"

text \<open>
  The promise returned by \<open>readFileContent\<close>: \<open>Inr text\<close> when it resolves with \<open>text\<close>,
  \<open>Inl message\<close> when it rejects with \<open>new Error(message)\<close>.  Only the text branch starts a
  read, so only there can the \<open>error\<close> event of the reader fire.
\<close>

definition readFileContent :: "jsfile \<Rightarrow> string + string" where
  "readFileContent file =
     (case readFileContent_branch (file_type file) of
        PdfBranch \<Rightarrow> Inr (pdf_placeholder (file_name file))
      | TextBranch \<Rightarrow>
          (case file_text file of
             Some content \<Rightarrow>
               if length content > 50000
               then Inr (take 50000 content @ TRUNCATION_MARKER)
               else Inr content
           | None \<Rightarrow> Inl ''Failed to read file'')
      | DocxBranch \<Rightarrow> Inr (docx_placeholder (file_name file))
      | UnsupportedBranch \<Rightarrow> Inr (unsupported_placeholder (file_type file)))"


section \<open>Request composition: \<open>generateBRD\<close>\<close>

record file_content =
  fc_filename :: string
  fc_content :: string
  fc_type :: string

text \<open>
  An outbound \<open>fetch\<close>: the URL and the fields of the JSON body.  The text-only body has no
  \<open>uploaded_files\<close> field.
\<close>

record request =
  endpoint :: string
  project_description :: string
  uploaded_files :: "file_content list option"
  model :: string

record brd_result =
  message :: string
  project_name :: string
  brd_markdown :: string
  llm_provider_used :: string

text \<open>
  What \<open>fetch\<close> does with a request: it rejects (transport failure) with a message, or
  resolves with a response that has a status and whose \<open>json()\<close> either throws with a
  message or yields the data.
\<close>

datatype fetch_result =
    FetchRejected string
  | FetchResponse nat "string + brd_result"

definition response_ok :: "nat \<Rightarrow> bool" where
  "response_ok status = (200 \<le> status \<and> status \<le> 299)"

fun show_nat :: "nat \<Rightarrow> string" where
  "show_nat n =
     (if n < 10 then [''0123456789'' ! n]
      else show_nat (n div 10) @ [''0123456789'' ! (n mod 10)])"

record dashboard =
  projectDescription :: string
  additionalInfo :: string
  uploadedFiles :: "fileobj list"
  isGenerating :: bool
  isGeneratingPDF :: bool
  isProcessingFiles :: bool
  result :: "brd_result option"
  error :: "string option"

text \<open>
  \<open>Promise.all\<close> over the extraction promises: the list of results when all resolve, the
  rejection when one rejects.  Every rejection carries the same message, so which one comes
  first does not show.
\<close>

fun promise_all :: "(string + 'a) list \<Rightarrow> string + 'a list" where
  "promise_all [] = Inr []"
| "promise_all (Inl e # ps) = Inl e"
| "promise_all (Inr x # ps) = (case promise_all ps of Inl e \<Rightarrow> Inl e | Inr xs \<Rightarrow> Inr (x # xs))"

text \<open>The callback mapped over \<open>uploadedFiles\<close>: one extraction per descriptor.\<close>

definition extractContent :: "fileobj \<Rightarrow> string + file_content" where
  "extractContent fileObj =
     (case readFileContent (fo_file fileObj) of
        Inl e \<Rightarrow> Inl e
      | Inr content \<Rightarrow>
          Inr \<lparr>fc_filename = fo_name fileObj, fc_content = content, fc_type = fo_type fileObj\<rparr>)"

definition hasExistingBRD :: "fileobj list \<Rightarrow> bool" where
  "hasExistingBRD fs =
     list_ex (\<lambda>file. str_includes (toLowerCase (fo_name file)) ''brd''
                  \<or> str_includes (toLowerCase (fo_name file)) ''business requirements''
                  \<or> str_includes (toLowerCase (fo_name file)) ''requirements document'') fs"

text \<open>The \<open>catch\<close> block followed by the \<open>finally\<close> block.\<close>

definition generate_failed :: "dashboard \<Rightarrow> string \<Rightarrow> dashboard" where
  "generate_failed st msg =
     st\<lparr>error := Some (js_or msg ''Failed to generate BRD''), isGenerating := False\<rparr>"

text \<open>
  One \<open>await fetch(...)\<close> with the check of \<open>response.ok\<close>, \<open>await response.json()\<close> and
  \<open>setResult(data)\<close>, as each of the three branches has it.  The result is the requests
  dispatched and the state after the \<open>finally\<close> block.
\<close>

definition post_json ::
  "dashboard \<Rightarrow> (request \<Rightarrow> fetch_result) \<Rightarrow> request \<Rightarrow> request list \<times> dashboard" where
  "post_json st fetch req =
     (case fetch req of
        FetchRejected msg \<Rightarrow> ([req], generate_failed st msg)
      | FetchResponse status body \<Rightarrow>
          if \<not> response_ok status
          then ([req], generate_failed st (''HTTP error! status: '' @ show_nat status))
          else (case body of
                  Inl msg \<Rightarrow> ([req], generate_failed st msg)
                | Inr data \<Rightarrow> ([req], st\<lparr>result := Some data, isGenerating := False\<rparr>)))"

definition generateBRD ::
  "dashboard \<Rightarrow> (request \<Rightarrow> fetch_result) \<Rightarrow> request list \<times> dashboard" where
  "generateBRD st fetch =
     (let st1 = st\<lparr>isGenerating := True, error := None\<rparr>
      in if length (uploadedFiles st) > 0 then
           (let st2 = st1\<lparr>isProcessingFiles := True\<rparr>
            in case promise_all (map extractContent (uploadedFiles st)) of
                 Inl msg \<Rightarrow> ([], generate_failed st2 msg)
               | Inr fileContents \<Rightarrow>
                   (let st3 = st2\<lparr>isProcessingFiles := False\<rparr>
                    in if hasExistingBRD (uploadedFiles st) then
                         post_json st3 fetch
                           \<lparr>endpoint = ''/api/generate_brd_with_files'',
                            project_description =
                              js_or (additionalInfo st) ''Improve existing BRD document'',
                            uploaded_files = Some fileContents,
                            model = ''gemini-2.0-flash''\<rparr>
                       else
                         post_json st3 fetch
                           \<lparr>endpoint = ''/api/generate_brd_with_files'',
                            project_description =
                              js_or (projectDescription st)
                                (js_or (additionalInfo st) ''Project requirements from uploaded files''),
                            uploaded_files = Some fileContents,
                            model = ''gemini-2.0-flash''\<rparr>))
         else
           post_json st1 fetch
             \<lparr>endpoint = ''/api/generate_brd_from_input'',
              project_description =
                js_or (projectDescription st) (js_or (additionalInfo st) ''Project requirements''),
              uploaded_files = None,
              model = ''gemini-2.0-flash''\<rparr>)"


section \<open>Paginated PDF export: \<open>downloadPDF\<close>\<close>

text \<open>
  The document body is the list of its child nodes.  \<open>appendChild\<close> puts a node last
  (moving it when it is already a child) and \<open>removeChild\<close> takes it out.
\<close>

definition appendChild :: "nat list \<Rightarrow> nat \<Rightarrow> nat list" where
  "appendChild body node = filter (\<lambda>n. n \<noteq> node) body @ [node]"

definition removeChild :: "nat list \<Rightarrow> nat \<Rightarrow> nat list" where
  "removeChild body node = filter (\<lambda>n. n \<noteq> node) body"

record canvas =
  cv_width :: nat
  cv_height :: nat

definition imgWidth :: rat where
  "imgWidth = 210"

definition pageHeight :: rat where
  "pageHeight = 295"

text \<open>
  \<open>imgHeight = (canvas.height * imgWidth) / canvas.width\<close> for a canvas of positive width.
  Numbers are exact rationals here.  In binary64 the product is exact and the quotient is
  rounded; as long as the product is below \<open>2^53\<close> the rounded quotient lies on the same
  side of every multiple of the page height as the exact one, and the subtractions of the
  loop keep the sign of \<open>heightLeft\<close>, so the loop runs the same number of times.
\<close>

definition imgHeight :: "canvas \<Rightarrow> rat" where
  "imgHeight c = (of_nat (cv_height c) * imgWidth) / of_nat (cv_width c)"

text \<open>
  The loop \<open>while (heightLeft >= 0) { position = heightLeft - imgHeight; pdf.addPage();
  pdf.addImage(canvas, 'JPEG', 0, position, imgWidth, imgHeight); heightLeft -= pageHeight }\<close>.
  The document is the list of its pages, each page given by the vertical position at
  which the image is drawn on it.
\<close>

function add_pages :: "rat \<Rightarrow> rat \<Rightarrow> rat list \<Rightarrow> rat list" where
  "add_pages heightLeft imgH pdf =
     (if heightLeft \<ge> 0
      then add_pages (heightLeft - pageHeight) imgH (pdf @ [heightLeft - imgH])
      else pdf)"
  by pat_completeness auto
termination
  by (relation "measure (\<lambda>(heightLeft, imgH, pdf). nat (\<lfloor>heightLeft\<rfloor> + 1))")
     (auto simp: pageHeight_def)

text \<open>
  The pages of the document: the first page with the image at position \<open>0\<close>, then the
  loop.  With a canvas of width \<open>0\<close> the quotient is not a finite number: for height
  \<open>0\<close> it is \<open>NaN\<close>, the loop test is false and the document keeps its first page; for
  a positive height it is \<open>Infinity\<close>, \<open>heightLeft\<close> stays \<open>Infinity\<close> and the loop never
  ends, which is the value \<open>None\<close>.
\<close>

definition paginate :: "canvas \<Rightarrow> rat list option" where
  "paginate c =
     (if cv_width c = 0 then (if cv_height c = 0 then Some [0] else None)
      else Some (add_pages (imgHeight c - pageHeight) (imgHeight c) [0]))"

text \<open>
  The environment of one export: what \<open>marked\<close> returns or throws for the markdown, the
  element that \<open>document.createElement\<close> returns, what \<open>html2canvas\<close> resolves or rejects
  with, and whether a call of the PDF library (constructor, \<open>addImage\<close>, \<open>addPage\<close>,
  \<open>save\<close>) throws.
\<close>

record pdf_env =
  marked_html :: "string + string"
  tempContainer :: nat
  html2canvas_result :: "string + canvas"
  jspdf_throws :: bool

text \<open>
  The outcome of one export: the children of the document body afterwards, the alerts
  shown, the pages of the saved document if one was saved, and the dashboard state.
\<close>

record pdf_run =
  run_body :: "nat list"
  run_alerts :: "alert list"
  run_saved :: "rat list option"
  run_state :: dashboard

text \<open>The \<open>catch\<close> block followed by the \<open>finally\<close> block.\<close>

definition pdf_failed :: "dashboard \<Rightarrow> nat list \<Rightarrow> pdf_run" where
  "pdf_failed st body =
     \<lparr>run_body = body, run_alerts = [AlertPdfError], run_saved = None,
      run_state = st\<lparr>isGeneratingPDF := False\<rparr>\<rparr>"

definition downloadPDF :: "dashboard \<Rightarrow> pdf_env \<Rightarrow> nat list \<Rightarrow> pdf_run option" where
  "downloadPDF st env body =
     (case result st of
        None \<Rightarrow> Some \<lparr>run_body = body, run_alerts = [], run_saved = None, run_state = st\<rparr>
      | Some r \<Rightarrow>
          (let st1 = st\<lparr>isGeneratingPDF := True\<rparr>
           in case marked_html env of
                Inl e \<Rightarrow> Some (pdf_failed st1 body)
              | Inr htmlContent \<Rightarrow>
                  (let body1 = appendChild body (tempContainer env)
                   in case html2canvas_result env of
                        Inl e \<Rightarrow> Some (pdf_failed st1 body1)
                      | Inr c \<Rightarrow>
                          (let body2 = removeChild body1 (tempContainer env)
                           in if jspdf_throws env then Some (pdf_failed st1 body2)
                              else (case paginate c of
                                      None \<Rightarrow> None
                                    | Some pdf \<Rightarrow>
                                        Some \<lparr>run_body = body2, run_alerts = [],
                                              run_saved = Some pdf,
                                              run_state = st1\<lparr>isGeneratingPDF := False\<rparr>\<rparr>)))))"


section \<open>Sample inputs\<close>

text \<open>
  Draws of one batch mapped within a single millisecond: the clock reads
  \<open>1700000000000\<close> for every file and the generator returns \<open>1/2 + i / 2^23\<close> for the
  \<open>i\<close>-th file.
\<close>

definition same_ms_draws :: "nat \<Rightarrow> nat \<times> nat" where
  "same_ms_draws i = (1700000000000, 2 ^ 52 + i * 2 ^ 30)"

definition pdf_file :: "string \<Rightarrow> jsfile" where
  "pdf_file name =
     \<lparr>file_name = name, file_size = 1000, file_type = ''application/pdf'', file_text = None\<rparr>"

definition md_file :: "string \<Rightarrow> nat \<Rightarrow> string option \<Rightarrow> jsfile" where
  "md_file name sz txt =
     \<lparr>file_name = name, file_size = sz, file_type = ''text/markdown'', file_text = txt\<rparr>"

definition exe_file :: jsfile where
  "exe_file =
     \<lparr>file_name = ''c.exe'', file_size = 10, file_type = ''application/octet-stream'',
      file_text = None\<rparr>"

definition sample_ops :: "intake_op list" where
  "sample_ops =
     [Pick [pdf_file ''a.pdf'', md_file ''big.md'' 10485761 (Some ''x''), exe_file] same_ms_draws,
      Remove 5,
      Drop [md_file ''d.md'' 10485760 (Some ''y'')] same_ms_draws]"





definition two_pdfs :: "intake_op list" where
  "two_pdfs = [Pick [pdf_file ''a.pdf'', pdf_file ''b.pdf''] same_ms_draws]"

definition sample_result :: brd_result where
  "sample_result = \<lparr>message = ''ok'', project_name = ''Inventory app'',
     brd_markdown = ''# BRD'', llm_provider_used = ''gemini''\<rparr>"

definition sample_state :: dashboard where
  "sample_state = \<lparr>projectDescription = [], additionalInfo = [], uploadedFiles = [],
     isGenerating = False, isGeneratingPDF = False, isProcessingFiles = False,
     result = Some sample_result, error = None\<rparr>"

definition failing_raster :: pdf_env where
  "failing_raster =
     \<lparr>marked_html = Inr ''<h1>BRD</h1>'', tempContainer = 1,
      html2canvas_result = Inl ''Unable to render'', jspdf_throws = False\<rparr>"

definition long_canvas :: canvas where
  "long_canvas = \<lparr>cv_width = 2400, cv_height = 70800\<rparr>"

definition threshold_text :: string where
  "threshold_text = replicate 50000 (CHR ''a'')"

definition long_text :: string where
  "long_text = replicate 50001 (CHR ''a'')"

definition offline :: "request \<Rightarrow> fetch_result" where
  "offline req = FetchRejected ''Failed to fetch''"

definition info_only :: "string \<Rightarrow> dashboard" where
  "info_only info = sample_state\<lparr>additionalInfo := info\<rparr>"

definition with_file :: "jsfile \<Rightarrow> dashboard" where
  "with_file file =
     sample_state\<lparr>projectDescription := ''Inventory app'',
       uploadedFiles := [mkFileObj (same_ms_draws 0) file]\<rparr>"

definition unreadable_batch :: dashboard where
  "unreadable_batch =
     sample_state\<lparr>uploadedFiles :=
       [mkFileObj (same_ms_draws 0) (pdf_file ''a.pdf''),
        mkFileObj (same_ms_draws 1) (md_file ''n.md'' 10 None)]\<rparr>"

lemmas intake_defs =
  processFiles_def validFile_def VALID_FILE_TYPES_def MAX_FILE_SIZE_def MAX_FILES_COUNT_def
  newFiles_def mkFileObj_def removeFile_def same_ms_draws_def date_now_plus_random_def
  round_half_even_def pdf_file_def md_file_def exe_file_def

lemmas branch_defs = readFileContent_def readFileContent_branch_def


section \<open>The accepted-file collection stays within its limits\<close>

lemma validFile_iff:
  "validFile f \<longleftrightarrow> file_type f \<in> set VALID_FILE_TYPES \<and> file_size f \<le> MAX_FILE_SIZE"
  by (auto simp: validFile_def)


lemma length_newFiles: "length (newFiles draws fs) = length fs"
  by (simp add: newFiles_def)

lemma newFiles_copy:
  assumes "g \<in> set (newFiles draws fs)"
  shows "fo_file g \<in> set fs \<and> fo_type g = file_type (fo_file g)
    \<and> fo_size g = file_size (fo_file g) \<and> fo_name g = file_name (fo_file g)"
  using assms by (auto simp: newFiles_def mkFileObj_def in_set_enumerate_eq)

lemma newFiles_ok:
  assumes "\<forall>f \<in> set fs. validFile f"
  shows "list_all (\<lambda>f. fo_type f = file_type (fo_file f) \<and> fo_size f = file_size (fo_file f)
                  \<and> fo_type f \<in> set VALID_FILE_TYPES \<and> fo_size f \<le> MAX_FILE_SIZE)
           (newFiles draws fs)"
  unfolding list_all_iff
proof
  fix g assume "g \<in> set (newFiles draws fs)"
  from newFiles_copy[OF this] assms
  show "fo_type g = file_type (fo_file g) \<and> fo_size g = file_size (fo_file g)
      \<and> fo_type g \<in> set VALID_FILE_TYPES \<and> fo_size g \<le> MAX_FILE_SIZE"
    by (auto simp: validFile_iff)
qed

lemma processFiles_ok:
  assumes "accepted_ok fs"
  shows "accepted_ok (snd (processFiles fs files draws))"
proof -
  let ?v = "filter validFile files"
  have v: "\<forall>f \<in> set ?v. validFile f" by simp
  have t: "\<forall>f \<in> set (take n ?v). validFile f" for n
    by (auto dest: in_set_takeD)
  show ?thesis
    using assms newFiles_ok[OF v] newFiles_ok[OF t]
    by (auto simp: processFiles_def Let_def accepted_ok_def length_newFiles MAX_FILES_COUNT_def)
qed

lemma removeFile_ok: "accepted_ok fs \<Longrightarrow> accepted_ok (removeFile fs i)"
  unfolding accepted_ok_def removeFile_def list_all_iff
  by (auto intro: le_trans[OF length_filter_le])

lemma intake_step_ok: "accepted_ok fs \<Longrightarrow> accepted_ok (intake_step fs op)"
  by (cases op) (simp_all add: processFiles_ok removeFile_ok)

lemma foldl_intake_ok: "accepted_ok fs \<Longrightarrow> accepted_ok (foldl intake_step fs ops)"
  by (induction ops arbitrary: fs) (simp_all add: intake_step_ok)

lemma run_intake_ok: "accepted_ok (run_intake ops)"
  unfolding run_intake_def by (rule foldl_intake_ok) (simp add: accepted_ok_def)

text \<open>
  Claim C1.  After any sequence of picker batches, drop batches and removals, every
  descriptor of the accepted-file collection carries the type and size of its file, the
  type is one of the four allowed MIME types, the size is at most 10 MiB, and the
  collection holds at most 10 descriptors.
\<close>

theorem intake_invariant:
  "(\<forall>f \<in> set (run_intake ops).
      fo_type f = file_type (fo_file f) \<and> fo_size f = file_size (fo_file f)
      \<and> file_type (fo_file f) \<in> {''application/pdf'', ''text/markdown'', ''text/x-markdown'',
            ''application/vnd.openxmlformats-officedocument.wordprocessingml.document''}
      \<and> file_size (fo_file f) \<le> 10 * 1024 * 1024)
   \<and> length (run_intake ops) \<le> 10"
  using run_intake_ok[of ops]
  by (auto simp: accepted_ok_def list_all_iff VALID_FILE_TYPES_def MAX_FILE_SIZE_def
      MAX_FILES_COUNT_def)

theorem intake_invariant_witness:
  "map fo_name (run_intake sample_ops) = [''a.pdf'', ''d.md'']
   \<and> map (\<lambda>f. file_type (fo_file f)) (run_intake sample_ops) =
       [''application/pdf'', ''text/markdown'']
   \<and> map (\<lambda>f. file_size (fo_file f)) (run_intake sample_ops) = [1000, 10485760]
   \<and> length (run_intake sample_ops) \<le> 10"
  using intake_invariant[of sample_ops]
  by (simp add: run_intake_def sample_ops_def intake_defs)


section \<open>Truncation of a batch to the remaining capacity\<close>





section \<open>Identifiers and removal\<close>

text \<open>
  Removal by identifier filters on the identifier.  Where the identifiers of a collection
  are pairwise distinct, it takes out the one descriptor with that identifier and keeps
  the others in their order.
\<close>

lemma removeFile_distinct:
  assumes "distinct (map fo_id fs)" "f \<in> set fs"
  shows "removeFile fs (fo_id f) = remove1 f fs"
  using assms
proof (induction fs)
  case Nil
  then show ?case by simp
next
  case (Cons g gs)
  show ?case
  proof (cases "g = f")
    case True
    with Cons.prems have "fo_id f \<notin> fo_id ` set gs" by simp
    then have "\<forall>h \<in> set gs. fo_id h \<noteq> fo_id f" by (metis imageI)
    then have "filter (\<lambda>h. fo_id h \<noteq> fo_id f) gs = gs" by (simp add: filter_id_conv)
    with True show ?thesis by (simp add: removeFile_def)
  next
    case False
    with Cons.prems have "f \<in> set gs" "fo_id g \<noteq> fo_id f" "distinct (map fo_id gs)" by auto
    with Cons.IH False show ?thesis by (simp add: removeFile_def)
  qed
qed

text \<open>
  Claim C9, at a batch of two files mapped within one millisecond with different random
  draws: both sums round to the same binary64 number, the two descriptors share their
  identifier, and removing by that identifier removes both.
\<close>

theorem same_ms_ids_collide:
  "snd (same_ms_draws 0) \<noteq> snd (same_ms_draws 1)
   \<and> map fo_name (run_intake two_pdfs) = [''a.pdf'', ''b.pdf'']
   \<and> map fo_id (run_intake two_pdfs) = [3400000000001 / 2, 3400000000001 / 2]
   \<and> removeFile (run_intake two_pdfs) (3400000000001 / 2) = []"
  by (simp add: run_intake_def two_pdfs_def intake_defs)


section \<open>The temporary container of the PDF export\<close>

lemma downloadPDF_rasterization_throws:
  assumes "result st = Some r" "marked_html env = Inr h" "html2canvas_result env = Inl e"
  shows "map_option run_body (downloadPDF st env body) = Some (appendChild body (tempContainer env))"
  using assms by (simp add: downloadPDF_def pdf_failed_def Let_def)

lemma downloadPDF_container_removed:
  assumes "html2canvas_result env = Inr c" "downloadPDF st env body = Some run"
    "tempContainer env \<notin> set body"
  shows "run_body run = body"
proof -
  have b: "removeChild (appendChild body (tempContainer env)) (tempContainer env) = body"
    using assms(3) by (auto simp: removeChild_def appendChild_def filter_id_conv)
  show ?thesis
  proof (cases "result st")
    case None
    with assms(2) show ?thesis by (auto simp: downloadPDF_def)
  next
    case (Some r)
    show ?thesis
    proof (cases "marked_html env")
      case (Inl e)
      with Some assms(2) show ?thesis by (auto simp: downloadPDF_def pdf_failed_def)
    next
      case (Inr h)
      show ?thesis
      proof (cases "jspdf_throws env")
        case True
        with Some Inr assms(1,2) b show ?thesis
          by (auto simp: downloadPDF_def pdf_failed_def)
      next
        case False
        with Some Inr assms(1,2) b show ?thesis
          by (cases "paginate c") (auto simp: downloadPDF_def)
      qed
    qed
  qed
qed

text \<open>
  Claim C2, at an export whose rasterization rejects: the container appended before the
  call of \<open>html2canvas\<close> is still a child of the document body when the export ends.
\<close>

theorem container_left_when_rasterization_throws:
  "map_option run_body (downloadPDF sample_state failing_raster [0]) = Some [0, 1]
   \<and> map_option run_alerts (downloadPDF sample_state failing_raster [0]) = Some [AlertPdfError]"
  by (simp add: downloadPDF_def sample_state_def failing_raster_def pdf_failed_def
      appendChild_def)


section \<open>The number of pages of the PDF export\<close>

lemma length_add_pages:
  "length (add_pages hl H pdf) = length pdf + (if hl \<ge> 0 then nat \<lfloor>hl / pageHeight\<rfloor> + 1 else 0)"
proof (induction hl H pdf rule: add_pages.induct)
  case (1 hl H pdf)
  show ?case
  proof (cases "hl \<ge> 0")
    case True
    note IH = 1[OF True]
    show ?thesis
    proof (cases "hl - pageHeight \<ge> 0")
      case T2: True
      have "\<lfloor>hl / pageHeight\<rfloor> = \<lfloor>(hl - pageHeight) / pageHeight\<rfloor> + 1"
        by (simp add: pageHeight_def diff_divide_distrib)
      moreover have "\<lfloor>(hl - pageHeight) / pageHeight\<rfloor> \<ge> 0" using T2 by (simp add: pageHeight_def)
      ultimately show ?thesis using IH True T2
        by (subst add_pages.simps) (simp add: nat_add_distrib)
    next
      case F2: False
      then have "\<lfloor>hl / pageHeight\<rfloor> = 0" using True by (simp add: pageHeight_def floor_eq_iff)
      then show ?thesis using IH True F2
        by (subst add_pages.simps) simp
    qed
  next
    case False
    then show ?thesis by (subst add_pages.simps) simp
  qed
qed

lemma paginate_length:
  assumes "cv_width c > 0"
  shows "map_option length (paginate c) = Some (nat \<lfloor>imgHeight c / pageHeight\<rfloor> + 1)"
proof -
  let ?H = "imgHeight c"
  have h: "?H \<ge> 0" by (simp add: imgHeight_def imgWidth_def)
  have p: "paginate c = Some (add_pages (?H - pageHeight) ?H [0])"
    using assms by (simp add: paginate_def)
  have "length (add_pages (?H - pageHeight) ?H [0]) = nat \<lfloor>?H / pageHeight\<rfloor> + 1"
  proof (cases "?H - pageHeight \<ge> 0")
    case True
    have f: "\<lfloor>?H / pageHeight\<rfloor> = \<lfloor>(?H - pageHeight) / pageHeight\<rfloor> + 1"
      by (simp add: pageHeight_def diff_divide_distrib)
    have g: "\<lfloor>(?H - pageHeight) / pageHeight\<rfloor> \<ge> 0"
      using True by (simp add: pageHeight_def)
    have "length (add_pages (?H - pageHeight) ?H [0]) =
        1 + (nat \<lfloor>(?H - pageHeight) / pageHeight\<rfloor> + 1)"
      using True by (simp only: length_add_pages if_True list.size)
    also have "\<dots> = nat \<lfloor>?H / pageHeight\<rfloor> + 1"
      unfolding f using g by linarith
    finally show ?thesis .
  next
    case False
    then have "\<lfloor>?H / pageHeight\<rfloor> = 0"
      using h by (simp add: pageHeight_def floor_eq_iff)
    moreover have "length (add_pages (?H - pageHeight) ?H [0]) = 1"
      using False by (simp add: length_add_pages)
    ultimately show ?thesis by simp
  qed
  with p show ?thesis by simp
qed

text \<open>
  Claim C3, at a canvas of 2400 by 70800 pixels (a container 23600 pixels high at scale 3):
  the image is exactly 21 page heights high, and the document gets 22 pages, the last one
  with the image drawn wholly above the page.
\<close>

theorem extra_page_on_exact_multiple:
  "imgHeight long_canvas = 21 * pageHeight
   \<and> \<lceil>imgHeight long_canvas / pageHeight\<rceil> = 21
   \<and> map_option length (paginate long_canvas) = Some 22
   \<and> map_option last (paginate long_canvas) = Some (- imgHeight long_canvas)"
  by (simp add: paginate_def long_canvas_def imgHeight_def imgWidth_def pageHeight_def)


section \<open>Extraction of text files\<close>

text \<open>
  Claim C4 as stated, at a markdown file whose content has exactly 50000 characters: the
  extraction resolves with the content as it is, without the truncation marker.
\<close>

theorem text_at_threshold_not_truncated:
  "length threshold_text = 50000
   \<and> readFileContent (md_file ''n.md'' 50000 (Some threshold_text)) = Inr threshold_text
   \<and> readFileContent (md_file ''n.md'' 50000 (Some threshold_text))
       \<noteq> Inr (take 50000 threshold_text @ TRUNCATION_MARKER)"
  by (simp add: branch_defs md_file_def threshold_text_def TRUNCATION_MARKER_def)

text \<open>
  Claim C4, amended.  For a file that takes the text branch (its type is not the PDF type
  and contains \<open>markdown\<close> or \<open>text\<close>) and whose read delivers a content: the
  extraction resolves with the content itself when it has at most 50000 characters, and
  with its first 50000 characters followed by the truncation marker when it has more.
\<close>

theorem text_extraction_threshold:
  assumes "file_type file \<noteq> ''application/pdf''"
    and "str_includes (file_type file) ''markdown'' \<or> str_includes (file_type file) ''text''"
    and "file_text file = Some content"
  shows "readFileContent file =
     Inr (if length content \<le> 50000 then content else take 50000 content @ TRUNCATION_MARKER)"
  using assms by (simp add: branch_defs)

theorem text_extraction_threshold_witness:
  "file_type (md_file ''n.md'' 50001 (Some long_text)) \<noteq> ''application/pdf''
   \<and> str_includes (file_type (md_file ''n.md'' 50001 (Some long_text))) ''markdown''
   \<and> readFileContent (md_file ''n.md'' 50001 (Some long_text))
       = Inr (replicate 50000 (CHR ''a'') @ TRUNCATION_MARKER)"
  using text_extraction_threshold[of "md_file ''n.md'' 50001 (Some long_text)" long_text]
  by (simp add: md_file_def long_text_def)


section \<open>The request for a description without files\<close>

lemma fst_post_json: "fst (post_json st fetch req) = [req]"
  by (simp add: post_json_def split: fetch_result.split sum.split)

text \<open>
  Claim C5 as stated, at an empty project description with additional information
  entered and no file: the description sent is the additional information, a different
  string for different entries, not a fixed fallback.
\<close>

theorem additional_info_sent_as_description:
  "projectDescription (info_only ''Focus on security'') = []
   \<and> uploadedFiles (info_only ''Focus on security'') = []
   \<and> map project_description (fst (generateBRD (info_only ''Focus on security'') offline))
       = [''Focus on security'']
   \<and> map project_description (fst (generateBRD (info_only ''Mobile first'') offline))
       = [''Mobile first'']"
  by (simp add: generateBRD_def post_json_def offline_def info_only_def sample_state_def js_or_def)

text \<open>
  Claim C5, amended.  With no file attached, exactly one request is dispatched, to the
  generate-from-text endpoint, without an \<open>uploaded_files\<close> field; its description is
  the project description when that is not empty, else the additional information when
  that is not empty, else the fixed string \<open>Project requirements\<close>.
\<close>

theorem text_only_request:
  assumes "uploadedFiles st = []"
  shows "fst (generateBRD st fetch) =
     [\<lparr>endpoint = ''/api/generate_brd_from_input'',
       project_description =
         (if projectDescription st \<noteq> [] then projectDescription st
          else if additionalInfo st \<noteq> [] then additionalInfo st
          else ''Project requirements''),
       uploaded_files = None,
       model = ''gemini-2.0-flash''\<rparr>]"
  using assms by (simp add: generateBRD_def fst_post_json js_or_def)

theorem text_only_request_witness:
  "uploadedFiles sample_state = []
   \<and> fst (generateBRD sample_state offline) =
     [\<lparr>endpoint = ''/api/generate_brd_from_input'',
       project_description = ''Project requirements'',
       uploaded_files = None,
       model = ''gemini-2.0-flash''\<rparr>]"
  using text_only_request[of sample_state offline]
  by (simp add: sample_state_def)


section \<open>The request for a description with files\<close>

text \<open>
  Claim C6 as stated, at two submissions with the same entered project description and
  one PDF file each, named \<open>notes.pdf\<close> and \<open>brd.pdf\<close>: without a match the entered
  description is sent, with a match it is replaced by the default of the matching branch.
\<close>

theorem heuristic_drops_entered_description:
  "projectDescription (with_file (pdf_file ''notes.pdf'')) = projectDescription (with_file (pdf_file ''brd.pdf''))
   \<and> additionalInfo (with_file (pdf_file ''notes.pdf'')) = additionalInfo (with_file (pdf_file ''brd.pdf''))
   \<and> map project_description (fst (generateBRD (with_file (pdf_file ''notes.pdf'')) offline))
       = [''Inventory app'']
   \<and> map project_description (fst (generateBRD (with_file (pdf_file ''brd.pdf'')) offline))
       = [''Improve existing BRD document'']"
  by (simp add: generateBRD_def post_json_def offline_def with_file_def sample_state_def js_or_def
      hasExistingBRD_def toLowerCase_def lower_char_def extractContent_def branch_defs
      mkFileObj_def pdf_file_def)

text \<open>
  Claim C6, amended.  With at least one file attached and every extraction resolved,
  exactly one request is dispatched, to the generate-with-files endpoint, with the
  extracted contents and the same model whether or not the file-name heuristic matches.
  On a match the description is the additional information, or
  \<open>Improve existing BRD document\<close> when that is empty, and the project description is
  not used; without a match it is the project description, else the additional
  information, else \<open>Project requirements from uploaded files\<close>.
\<close>

theorem with_files_request:
  assumes "uploadedFiles st \<noteq> []"
    and "promise_all (map extractContent (uploadedFiles st)) = Inr fileContents"
  shows "fst (generateBRD st fetch) =
     [\<lparr>endpoint = ''/api/generate_brd_with_files'',
       project_description =
         (if hasExistingBRD (uploadedFiles st)
          then (if additionalInfo st \<noteq> [] then additionalInfo st
                else ''Improve existing BRD document'')
          else (if projectDescription st \<noteq> [] then projectDescription st
                else if additionalInfo st \<noteq> [] then additionalInfo st
                else ''Project requirements from uploaded files'')),
       uploaded_files = Some fileContents,
       model = ''gemini-2.0-flash''\<rparr>]"
  using assms by (simp add: generateBRD_def fst_post_json js_or_def)

theorem with_files_request_witness:
  "uploadedFiles (with_file (pdf_file ''brd.pdf'')) \<noteq> []
   \<and> fst (generateBRD (with_file (pdf_file ''brd.pdf'')) offline) =
     [\<lparr>endpoint = ''/api/generate_brd_with_files'',
       project_description = ''Improve existing BRD document'',
       uploaded_files = Some [\<lparr>fc_filename = ''brd.pdf'',
          fc_content = pdf_placeholder ''brd.pdf'', fc_type = ''application/pdf''\<rparr>],
       model = ''gemini-2.0-flash''\<rparr>]"
  using with_files_request[of "with_file (pdf_file ''brd.pdf'')"
      "[\<lparr>fc_filename = ''brd.pdf'', fc_content = pdf_placeholder ''brd.pdf'',
         fc_type = ''application/pdf''\<rparr>]" offline]
  by (simp add: with_file_def sample_state_def hasExistingBRD_def toLowerCase_def lower_char_def
      extractContent_def branch_defs mkFileObj_def pdf_file_def)


section \<open>A failed read fails the submission\<close>

lemma readFileContent_Inl: "readFileContent file = Inl e \<Longrightarrow> e = ''Failed to read file''"
  by (auto simp: readFileContent_def split: branch.splits option.splits if_splits)

lemma extractContent_Inl:
  "readFileContent (fo_file f) = Inl e \<Longrightarrow> extractContent f = Inl ''Failed to read file''"
  using readFileContent_Inl[of "fo_file f" e] by (simp add: extractContent_def)

lemma extractContent_Inl_msg: "extractContent f = Inl e \<Longrightarrow> e = ''Failed to read file''"
  using readFileContent_Inl[of "fo_file f"]
  by (auto simp: extractContent_def split: sum.splits)

lemma promise_all_rejects:
  assumes "Inl e \<in> set ps"
  shows "\<exists>e'. promise_all ps = Inl e' \<and> Inl e' \<in> set ps"
  using assms
proof (induction ps rule: promise_all.induct)
  case 1
  then show ?case by simp
next
  case (2 e0 ps)
  then show ?case by simp
next
  case (3 x ps)
  then have "Inl e \<in> set ps" by simp
  from "3.IH"[OF this] show ?case by auto
qed

text \<open>
  Claim C8.  When the extraction of some attached file rejects, the submission dispatches
  no request, leaves the result as it was, sets the error state to the message of the
  failed read and ends with the generating flag cleared.
\<close>

theorem read_failure_aborts_submission:
  assumes "f \<in> set (uploadedFiles st)" and "readFileContent (fo_file f) = Inl e"
  shows "fst (generateBRD st fetch) = []
     \<and> result (snd (generateBRD st fetch)) = result st
     \<and> error (snd (generateBRD st fetch)) = Some ''Failed to read file''
     \<and> isGenerating (snd (generateBRD st fetch)) = False"
proof -
  have "Inl ''Failed to read file'' \<in> set (map extractContent (uploadedFiles st))"
    using assms extractContent_Inl[OF assms(2)] by (metis image_eqI list.set_map)
  from promise_all_rejects[OF this]
  obtain e' where p: "promise_all (map extractContent (uploadedFiles st)) = Inl e'"
    and m: "Inl e' \<in> set (map extractContent (uploadedFiles st))" by blast
  from m obtain g where "extractContent g = Inl e'" by auto
  then have e': "e' = ''Failed to read file''" by (rule extractContent_Inl_msg)
  have ne: "length (uploadedFiles st) > 0" using assms(1) by (cases "uploadedFiles st") auto
  show ?thesis using p e' ne
    by (simp add: generateBRD_def generate_failed_def js_or_def)
qed

theorem read_failure_aborts_submission_witness:
  "mkFileObj (same_ms_draws 1) (md_file ''n.md'' 10 None) \<in> set (uploadedFiles unreadable_batch)
   \<and> readFileContent (fo_file (mkFileObj (same_ms_draws 1) (md_file ''n.md'' 10 None)))
       = Inl ''Failed to read file''
   \<and> generateBRD unreadable_batch offline =
       ([], unreadable_batch\<lparr>isGenerating := False, isProcessingFiles := True,
              error := Some ''Failed to read file''\<rparr>)"
  using read_failure_aborts_submission[of "mkFileObj (same_ms_draws 1) (md_file ''n.md'' 10 None)"
      unreadable_batch "''Failed to read file''" offline]
  by (simp add: unreadable_batch_def sample_state_def generateBRD_def generate_failed_def js_or_def
      extractContent_def branch_defs mkFileObj_def pdf_file_def md_file_def)


section \<open>Extraction of the files that the validator accepts\<close>

text \<open>
  Claim C10 as stated, at a markdown file that the validator accepts and whose read
  fails: the extraction rejects, so it does not always resolve.
\<close>

theorem accepted_markdown_read_can_reject:
  "validFile (md_file ''n.md'' 10 None)
   \<and> readFileContent (md_file ''n.md'' 10 None) = Inl ''Failed to read file''"
  by (simp add: validFile_def VALID_FILE_TYPES_def MAX_FILE_SIZE_def md_file_def branch_defs)

lemma valid_type_branch:
  assumes "ty \<in> set VALID_FILE_TYPES"
  shows "readFileContent_branch ty =
     (if ty = ''application/pdf'' then PdfBranch
      else if ty = ''application/vnd.openxmlformats-officedocument.wordprocessingml.document''
      then DocxBranch else TextBranch)"
proof -
  from assms consider "ty = ''application/pdf''" | "ty = ''text/markdown''"
    | "ty = ''text/x-markdown''"
    | "ty = ''application/vnd.openxmlformats-officedocument.wordprocessingml.document''"
    by (auto simp: VALID_FILE_TYPES_def)
  then show ?thesis
  proof cases
    case 1 then show ?thesis by (simp add: readFileContent_branch_def)
  next
    case 2 then show ?thesis by (simp add: readFileContent_branch_def)
  next
    case 3 then show ?thesis by (simp add: readFileContent_branch_def)
  next
    case 4 then show ?thesis by (simp add: readFileContent_branch_def)
  qed
qed

text \<open>
  Claim C10, amended.  For a file that the validator accepts, the extraction never takes
  the unsupported-type branch: for the PDF type and for the DOCX type it resolves with
  the placeholder of that type, and for the two markdown types it resolves with the
  content (truncated beyond 50000 characters) when the read succeeds and rejects with
  \<open>Failed to read file\<close> when the read fails.
\<close>

theorem accepted_files_never_unsupported:
  assumes "validFile file"
  shows "readFileContent_branch (file_type file) \<noteq> UnsupportedBranch
     \<and> readFileContent file =
        (if file_type file = ''application/pdf'' then Inr (pdf_placeholder (file_name file))
         else if file_type file =
             ''application/vnd.openxmlformats-officedocument.wordprocessingml.document''
         then Inr (docx_placeholder (file_name file))
         else (case file_text file of
                 Some content \<Rightarrow>
                   Inr (if length content \<le> 50000 then content
                        else take 50000 content @ TRUNCATION_MARKER)
               | None \<Rightarrow> Inl ''Failed to read file''))"
proof -
  from assms have "file_type file \<in> set VALID_FILE_TYPES"
    by (simp add: validFile_def split: if_splits)
  from valid_type_branch[OF this] show ?thesis
    by (simp add: readFileContent_def split: option.split)
qed

theorem accepted_files_never_unsupported_witness:
  "validFile (md_file ''n.md'' 7 (Some ''# Title''))
   \<and> readFileContent_branch (file_type (md_file ''n.md'' 7 (Some ''# Title''))) = TextBranch
   \<and> readFileContent (md_file ''n.md'' 7 (Some ''# Title'')) = Inr ''# Title''"
  using accepted_files_never_unsupported[of "md_file ''n.md'' 7 (Some ''# Title'')"]
  by (simp add: validFile_def VALID_FILE_TYPES_def MAX_FILE_SIZE_def md_file_def branch_defs)

end
